theory Spec2Isabelle
  imports Complex_Main
begin

section \<open>Data model\<close>

text \<open>
  The dataclass \<^verbatim>\<open>NetworkPacket\<close>. Timestamps are the readings of \<^verbatim>\<open>time.time()\<close>,
  taken here as real numbers; \<^verbatim>\<open>length\<close> is \<^verbatim>\<open>len(packet)\<close>; the two ports and the
  flags are \<^verbatim>\<open>Optional\<close> fields, \<^verbatim>\<open>None\<close> by default.
\<close>

record network_packet =
  timestamp :: real
  src_ip :: string
  dst_ip :: string
  protocol :: string
  length_pkt :: int
  src_port :: "int option"
  dst_port :: "int option"
  flags :: "string option"

text \<open>The dataclass \<^verbatim>\<open>ThreatAlert\<close>.\<close>

record threat_alert =
  alert_timestamp :: real
  threat_type :: string
  severity :: string
  source_ip :: string
  description :: string
  confidence :: real

text \<open>
  The fields of \<^verbatim>\<open>WiFiIDS\<close> that the detection engine reads and writes.
  \<^verbatim>\<open>packet_buffer\<close> is a \<^verbatim>\<open>deque(maxlen=PACKET_BUFFER_SIZE)\<close>, oldest record first;
  \<^verbatim>\<open>connection_tracker\<close> is a \<^verbatim>\<open>defaultdict(int)\<close>; \<^verbatim>\<open>ml_model\<close> is \<open>None\<close> as long as
  the isolation forest has no attribute \<^verbatim>\<open>offset_\<close>, and \<open>Some m\<close> with the fitted
  model \<open>m\<close> afterwards.
\<close>

record 'm wifi_ids =
  maxlen :: nat
  packet_buffer :: "network_packet list"
  connection_tracker :: "string \<Rightarrow> int"
  suspicious_ips :: "string set"
  threat_alerts :: "threat_alert list"
  ml_model :: "'m option"

section \<open>Rolling window\<close>

text \<open>
  \<^verbatim>\<open>deque.append\<close> on a bounded deque: the element is appended on the right and, when
  the deque then holds more than \<^verbatim>\<open>maxlen\<close> elements, one element is dropped on the left.
\<close>

definition deque_append :: "nat \<Rightarrow> 'a list \<Rightarrow> 'a \<Rightarrow> 'a list" where
  "deque_append n d x = (let d' = d @ [x] in if n < length d' then tl d' else d')"

section \<open>Rule detectors\<close>

text \<open>Python's truth value of an \<^verbatim>\<open>Optional[int]\<close>: \<^verbatim>\<open>None\<close> and \<^verbatim>\<open>0\<close> are false.\<close>

definition truthy :: "int option \<Rightarrow> bool" where
  "truthy v = (case v of None \<Rightarrow> False | Some n \<Rightarrow> n \<noteq> 0)"

text \<open>
  The detectors read the clock inside their comprehensions; \<open>now\<close> is that reading,
  one per call of a detector.
\<close>

definition detect_port_scan :: "real \<Rightarrow> network_packet list \<Rightarrow> network_packet \<Rightarrow> bool" where
  "detect_port_scan now buf packet =
     (if \<not> truthy (dst_port packet) then False
      else
        let recent_packets =
              filter (\<lambda>p. src_ip p = src_ip packet \<and> now - timestamp p < 60) buf;
            unique_ports =
              set (map (\<lambda>p. the (dst_port p)) (filter (\<lambda>p. truthy (dst_port p)) recent_packets))
        in 20 < card unique_ports)"

definition suspicious_ports :: "int set" where
  "suspicious_ports = {22, 23, 135, 139, 445, 1433, 3389, 5432, 5900, 6379}"

definition detect_suspicious_port :: "network_packet \<Rightarrow> bool" where
  "detect_suspicious_port packet =
     (case dst_port packet of None \<Rightarrow> False | Some n \<Rightarrow> n \<in> suspicious_ports)"

definition detect_ddos :: "real \<Rightarrow> network_packet list \<Rightarrow> network_packet \<Rightarrow> bool" where
  "detect_ddos now buf packet =
     (let recent_count =
            sum_list (map (\<lambda>p. (1::int))
              (filter (\<lambda>p. src_ip p = src_ip packet \<and> now - timestamp p < 10) buf))
      in 100 < recent_count)"

section \<open>Alerts\<close>

text \<open>
  \<^verbatim>\<open>create_threat_alert\<close>: the alert is stamped with the clock, appended to
  \<^verbatim>\<open>threat_alerts\<close>, and its source joins \<^verbatim>\<open>suspicious_ips\<close>. Storing the alert in the
  database, logging it and the response hook have no effect on the engine's state.
\<close>

definition create_threat_alert ::
  "real \<Rightarrow> string \<Rightarrow> string \<Rightarrow> string \<Rightarrow> string \<Rightarrow> real \<Rightarrow> 'm wifi_ids \<Rightarrow> 'm wifi_ids" where
  "create_threat_alert now ttype sev src descr conf st =
     (let alert = \<lparr>alert_timestamp = now, threat_type = ttype, severity = sev,
                    source_ip = src, description = descr, confidence = conf\<rparr>
      in st\<lparr>threat_alerts := threat_alerts st @ [alert],
             suspicious_ips := insert src (suspicious_ips st)\<rparr>)"

text \<open>Decimal rendering of an integer, as an f-string does it.\<close>

function str_nat :: "nat \<Rightarrow> string" where
  "str_nat n =
     (if n < 10 then [char_of (48 + n)]
      else str_nat (n div 10) @ [char_of (48 + n mod 10)])"
  by pat_completeness auto
termination
  by (relation "measure id") auto

definition str_int :: "int \<Rightarrow> string" where
  "str_int i = (if i < 0 then CHR ''-'' # str_nat (nat (- i)) else str_nat (nat i))"

definition str_port :: "int option \<Rightarrow> string" where
  "str_port v = (case v of None \<Rightarrow> ''None'' | Some n \<Rightarrow> str_int n)"

text \<open>
  \<^verbatim>\<open>analyze_packet\<close>: three \<^verbatim>\<open>if\<close> statements in a row, each with its own call of
  \<^verbatim>\<open>create_threat_alert\<close>.
\<close>

definition analyze_packet :: "real \<Rightarrow> 'm wifi_ids \<Rightarrow> network_packet \<Rightarrow> 'm wifi_ids" where
  "analyze_packet now st packet =
     (let st1 =
            (if detect_port_scan now (packet_buffer st) packet
             then create_threat_alert now ''PORT_SCAN'' ''HIGH'' (src_ip packet)
                    (''Port scan detected from '' @ src_ip packet) (8 / 10) st
             else st);
          st2 =
            (if detect_suspicious_port packet
             then create_threat_alert now ''SUSPICIOUS_PORT'' ''MEDIUM'' (src_ip packet)
                    (''Connection to suspicious port '' @ str_port (dst_port packet)
                       @ '' from '' @ src_ip packet) (6 / 10) st1
             else st1);
          st3 =
            (if detect_ddos now (packet_buffer st2) packet
             then create_threat_alert now ''DDOS'' ''CRITICAL'' (src_ip packet)
                    (''Potential DDoS attack from '' @ src_ip packet) (9 / 10) st2
             else st2)
      in st3)"

text \<open>
  \<^verbatim>\<open>packet_callback\<close> from the point where the \<^verbatim>\<open>NetworkPacket\<close> has been built (the
  decoding of the captured frame is the capture library's): the record enters the
  window, the tracker counts it, and the rule detectors run on it.
\<close>

definition packet_callback :: "real \<Rightarrow> 'm wifi_ids \<Rightarrow> network_packet \<Rightarrow> 'm wifi_ids" where
  "packet_callback now st network_packet =
     (let st1 = st\<lparr>packet_buffer :=
                      deque_append (maxlen st) (packet_buffer st) network_packet\<rparr>;
          st2 = st1\<lparr>connection_tracker :=
                       (connection_tracker st1)
                         (src_ip network_packet :=
                            connection_tracker st1 (src_ip network_packet) + 1)\<rparr>
      in analyze_packet now st2 network_packet)"

section \<open>Feature extraction\<close>

text \<open>
  \<^verbatim>\<open>ip_groups\<close> is a \<^verbatim>\<open>defaultdict(list)\<close>: a dictionary that keeps its keys in the order
  of their first insertion, here an association list. \<open>ip_groups_add\<close> is one round of
  the loop \<^verbatim>\<open>ip_groups[packet.src_ip].append(packet)\<close>.
\<close>

fun ip_groups_add ::
  "(string \<times> network_packet list) list \<Rightarrow> network_packet \<Rightarrow> (string \<times> network_packet list) list"
where
  "ip_groups_add [] packet = [(src_ip packet, [packet])]"
| "ip_groups_add ((ip, packets) # g) packet =
     (if ip = src_ip packet then (ip, packets @ [packet]) # g
      else (ip, packets) # ip_groups_add g packet)"

definition ip_groups :: "network_packet list \<Rightarrow> (string \<times> network_packet list) list" where
  "ip_groups buf = foldl ip_groups_add [] buf"

text \<open>
  The four features of one group. \<^verbatim>\<open>max\<close> and \<^verbatim>\<open>min\<close> over the timestamps are taken
  on a group that is never empty (a key enters the dictionary with its first record).
\<close>

definition group_features :: "network_packet list \<Rightarrow> real list" where
  "group_features packets =
     (let packet_rate =
            real (length packets)
              / max 1 (Max (set (map timestamp packets)) - Min (set (map timestamp packets)));
          avg_packet_size = real_of_int (sum_list (map length_pkt packets)) / real (length packets);
          unique_ports =
            card (set (map (\<lambda>p. the (dst_port p)) (filter (\<lambda>p. truthy (dst_port p)) packets)));
          protocol_diversity = card (set (map protocol packets))
      in [packet_rate, avg_packet_size, real unique_ports, real protocol_diversity])"

definition extract_features :: "network_packet list \<Rightarrow> real list list" where
  "extract_features buf =
     map (\<lambda>(ip, packets). group_features packets)
       (filter (\<lambda>(ip, packets). \<not> length packets < 5) (ip_groups buf))"

section \<open>Anomaly scorer\<close>

text \<open>
  The scaler and the isolation forest are library objects. Their four operations are
  parameters of the model: \<open>fit_transform\<close> of the \<^verbatim>\<open>StandardScaler\<close>, and \<open>fit\<close>,
  \<open>predict\<close> and \<open>decision_function\<close> of the \<^verbatim>\<open>IsolationForest\<close>, the last two reading
  the fitted model.
\<close>

record 'm sklearn =
  fit_transform :: "real list list \<Rightarrow> real list list"
  fit :: "real list list \<Rightarrow> 'm"
  predict :: "'m \<Rightarrow> real list list \<Rightarrow> int list"
  decision_function :: "'m \<Rightarrow> real list list \<Rightarrow> real list"

text \<open>Python's \<^verbatim>\<open>xs[i]\<close>: a negative index counts from the end; out of range raises.\<close>

definition py_index :: "'a list \<Rightarrow> int \<Rightarrow> 'a option" where
  "py_index xs i =
     (let n = int (length xs); j = (if i < 0 then n + i else i)
      in if 0 \<le> j \<and> j < n then Some (xs ! nat j) else None)"

definition enumerate_py :: "'a list \<Rightarrow> (nat \<times> 'a) list" where
  "enumerate_py xs = zip [0..<length xs] xs"

text \<open>
  The loop over \<^verbatim>\<open>enumerate(zip(anomalies, anomaly_scores))\<close>; \<open>n\<close> is
  \<^verbatim>\<open>len(features)\<close>. An \<^verbatim>\<open>IndexError\<close> would leave the loop for the handler of
  \<^verbatim>\<open>ml_analysis\<close>, which logs it and keeps the alerts created so far.
\<close>

fun anomaly_alerts ::
  "real \<Rightarrow> nat \<Rightarrow> (nat \<times> int \<times> real) list \<Rightarrow> 'm wifi_ids \<Rightarrow> 'm wifi_ids" where
  "anomaly_alerts now n [] st = st"
| "anomaly_alerts now n ((i, is_anomaly, score) # rest) st =
     (if is_anomaly = - 1 then
        (case py_index (packet_buffer st) (- (int n - int i)) of
           None \<Rightarrow> st
         | Some packet \<Rightarrow>
             anomaly_alerts now n rest
               (create_threat_alert now ''ANOMALY'' ''MEDIUM'' (src_ip packet)
                  (''Anomalous network behavior detected from '' @ src_ip packet)
                  \<bar>score\<bar> st))
      else anomaly_alerts now n rest st)"

definition ml_analysis :: "'m sklearn \<Rightarrow> real \<Rightarrow> 'm wifi_ids \<Rightarrow> 'm wifi_ids" where
  "ml_analysis sk now st =
     (let features = extract_features (packet_buffer st) in
      if length features < 10 then st
      else
        let features_scaled = fit_transform sk features in
        case ml_model st of
          None \<Rightarrow> st\<lparr>ml_model := Some (fit sk features_scaled)\<rparr>
        | Some m \<Rightarrow>
            let anomalies = predict sk m features_scaled;
                anomaly_scores = decision_function sk m features_scaled
            in anomaly_alerts now (length features)
                 (enumerate_py (zip anomalies anomaly_scores)) st)"

text \<open>
  One cycle of the loop of \<^verbatim>\<open>continuous_analysis\<close>, after its sleep: the analysis runs
  only on a window of more than 100 records. (\<^verbatim>\<open>update_statistics\<close>, which follows it,
  writes to the database and leaves the engine's state as it is.)
\<close>

definition continuous_analysis_cycle :: "'m sklearn \<Rightarrow> real \<Rightarrow> 'm wifi_ids \<Rightarrow> 'm wifi_ids" where
  "continuous_analysis_cycle sk now st =
     (if 100 < length (packet_buffer st) then ml_analysis sk now st else st)"

section \<open>Runs of the engine\<close>

text \<open>
  The engine is driven by two activities: the capture callback, once per packet, and the
  analysis thread, one cycle of \<^verbatim>\<open>continuous_analysis\<close> after each sleep. A run is a
  sequence of these calls, each with the clock reading it sees.
\<close>

datatype event = Packet real network_packet | Analysis real

fun step :: "'m sklearn \<Rightarrow> 'm wifi_ids \<Rightarrow> event \<Rightarrow> 'm wifi_ids" where
  "step sk st (Packet now p) = packet_callback now st p"
| "step sk st (Analysis now) = continuous_analysis_cycle sk now st"

definition run :: "'m sklearn \<Rightarrow> 'm wifi_ids \<Rightarrow> event list \<Rightarrow> 'm wifi_ids" where
  "run sk st evs = foldl (step sk) st evs"

text \<open>
  The feature batch of the first cycle of a run that finds more than 100 records in the
  window and extracts at least ten feature vectors from them, if there is one.
\<close>

fun first_batch :: "'m sklearn \<Rightarrow> 'm wifi_ids \<Rightarrow> event list \<Rightarrow> real list list option" where
  "first_batch sk st [] = None"
| "first_batch sk st (Packet now p # evs) = first_batch sk (packet_callback now st p) evs"
| "first_batch sk st (Analysis now # evs) =
     (let features = extract_features (packet_buffer st) in
      if 100 < length (packet_buffer st) \<and> \<not> length features < 10 then Some features
      else first_batch sk (continuous_analysis_cycle sk now st) evs)"

section \<open>Vocabulary of the specification\<close>

text \<open>The three rule alerts, with the severity and confidence the specification fixes.\<close>

definition scan_alert :: "real \<Rightarrow> network_packet \<Rightarrow> threat_alert" where
  "scan_alert now packet =
     \<lparr>alert_timestamp = now, threat_type = ''PORT_SCAN'', severity = ''HIGH'',
      source_ip = src_ip packet,
      description = ''Port scan detected from '' @ src_ip packet, confidence = 8 / 10\<rparr>"

definition sensitive_port_alert :: "real \<Rightarrow> network_packet \<Rightarrow> threat_alert" where
  "sensitive_port_alert now packet =
     \<lparr>alert_timestamp = now, threat_type = ''SUSPICIOUS_PORT'', severity = ''MEDIUM'',
      source_ip = src_ip packet,
      description = ''Connection to suspicious port '' @ str_port (dst_port packet)
                      @ '' from '' @ src_ip packet,
      confidence = 6 / 10\<rparr>"

definition flood_alert :: "real \<Rightarrow> network_packet \<Rightarrow> threat_alert" where
  "flood_alert now packet =
     \<lparr>alert_timestamp = now, threat_type = ''DDOS'', severity = ''CRITICAL'',
      source_ip = src_ip packet,
      description = ''Potential DDoS attack from '' @ src_ip packet, confidence = 9 / 10\<rparr>"

definition anomaly_alert :: "real \<Rightarrow> network_packet \<Rightarrow> real \<Rightarrow> threat_alert" where
  "anomaly_alert now packet score =
     \<lparr>alert_timestamp = now, threat_type = ''ANOMALY'', severity = ''MEDIUM'',
      source_ip = src_ip packet,
      description = ''Anomalous network behavior detected from '' @ src_ip packet,
      confidence = \<bar>score\<bar>\<rparr>"

text \<open>
  The specification's reading of the port sets: the distinct destination ports of some
  records, a record without a destination port contributing none; and its condition for
  the scan detector, more than 20 such ports among the records of the same source that
  are younger than 60 seconds.
\<close>

definition distinct_dst_ports :: "network_packet list \<Rightarrow> int set" where
  "distinct_dst_ports packets = set (List.map_filter dst_port packets)"

definition scan_condition :: "real \<Rightarrow> network_packet list \<Rightarrow> network_packet \<Rightarrow> bool" where
  "scan_condition now buf packet =
     (20 < card (distinct_dst_ports
        (filter (\<lambda>p. src_ip p = src_ip packet \<and> now - timestamp p < 60) buf)))"

section \<open>Sample inputs\<close>

definition tcp_packet :: "real \<Rightarrow> string \<Rightarrow> int \<Rightarrow> network_packet" where
  "tcp_packet t s d =
     \<lparr>timestamp = t, src_ip = s, dst_ip = ''10.0.0.1'', protocol = ''TCP'', length_pkt = 60,
      src_port = Some 40000, dst_port = Some d, flags = Some ''S''\<rparr>"

definition icmp_packet :: "real \<Rightarrow> string \<Rightarrow> network_packet" where
  "icmp_packet t s =
     \<lparr>timestamp = t, src_ip = s, dst_ip = ''10.0.0.1'', protocol = ''ICMP'', length_pkt = 84,
      src_port = None, dst_port = None, flags = None\<rparr>"

text \<open>The state \<^verbatim>\<open>__init__\<close> builds, for a window of capacity \<open>n\<close>.\<close>

definition init_ids :: "nat \<Rightarrow> 'm wifi_ids" where
  "init_ids n =
     \<lparr>maxlen = n, packet_buffer = [], connection_tracker = (\<lambda>ip. 0), suspicious_ips = {},
      threat_alerts = [], ml_model = None\<rparr>"

text \<open>A window of capacity 3 that is full, oldest record first.\<close>

definition full_window :: "unit wifi_ids" where
  "full_window =
     (init_ids 3)\<lparr>packet_buffer :=
       [tcp_packet 1 ''a'' 80, tcp_packet 2 ''b'' 80, tcp_packet 3 ''a'' 443]\<rparr>"

text \<open>
  Records of source \<open>a\<close> to the ports \<open>lo, \<dots>, hi - 1\<close>, all captured at time 1.
\<close>

definition port_sweep :: "nat \<Rightarrow> nat \<Rightarrow> network_packet list" where
  "port_sweep lo hi = map (\<lambda>n. tcp_packet 1 ''a'' (int n)) [lo..<hi]"

definition swept_ids :: "unit wifi_ids" where
  "swept_ids = (init_ids 10000)\<lparr>packet_buffer := port_sweep 1 22\<rparr>"

definition busy_ids :: "unit wifi_ids" where
  "busy_ids = (init_ids 10000)\<lparr>packet_buffer := port_sweep 1 101\<rparr>"

text \<open>Five records of one source, all to destination port 0.\<close>

definition port_zero_window :: "network_packet list" where
  "port_zero_window = replicate 5 (tcp_packet 1 ''a'' 0)"

text \<open>Ten sources \<open>a, \<dots>, j\<close> with five records each, one source after the other.\<close>

definition ten_sources :: "network_packet list" where
  "ten_sources =
     concat (map (\<lambda>s. replicate 5 (tcp_packet 1 s 80))
       [''a'', ''b'', ''c'', ''d'', ''e'', ''f'', ''g'', ''h'', ''i'', ''j''])"

text \<open>
  A stand-in for the library: the scaler leaves the batch as it is, the fitted model is
  the batch it was fitted on, the first vector of a batch is the only outlier, and every
  score is \<open>- 1/4\<close>.
\<close>

definition flag_first :: "(real list list) sklearn" where
  "flag_first =
     \<lparr>fit_transform = (\<lambda>X. X), fit = (\<lambda>X. X),
      predict = (\<lambda>m X. case X of [] \<Rightarrow> [] | v # vs \<Rightarrow> - 1 # map (\<lambda>v. 1) vs),
      decision_function = (\<lambda>m X. map (\<lambda>v. - (1 / 4)) X)\<rparr>"

definition untrained_ids :: "(real list list) wifi_ids" where
  "untrained_ids = (init_ids 10000)\<lparr>packet_buffer := ten_sources\<rparr>"

definition trained_ids :: "(real list list) wifi_ids" where
  "trained_ids = (init_ids 10000)\<lparr>packet_buffer := ten_sources, ml_model := Some []\<rparr>"

text \<open>The same ten sources with eleven records each: a window of 110 records.\<close>

definition eleven_each :: "network_packet list" where
  "eleven_each =
     concat (map (\<lambda>s. replicate 11 (tcp_packet 1 s 80))
       [''a'', ''b'', ''c'', ''d'', ''e'', ''f'', ''g'', ''h'', ''i'', ''j''])"

definition untrained_large :: "(real list list) wifi_ids" where
  "untrained_large = (init_ids 10000)\<lparr>packet_buffer := eleven_each\<rparr>"

definition trained_large :: "(real list list) wifi_ids" where
  "trained_large = (init_ids 10000)\<lparr>packet_buffer := eleven_each, ml_model := Some []\<rparr>"

definition sample_run :: "event list" where
  "sample_run = [Analysis 60, Packet 61 (tcp_packet 61 ''k'' 80), Analysis 120]"

section \<open>What a call leaves unchanged\<close>

lemma create_threat_alert_frame:
  "packet_buffer (create_threat_alert now ty sev src d c st) = packet_buffer st"
  "maxlen (create_threat_alert now ty sev src d c st) = maxlen st"
  "ml_model (create_threat_alert now ty sev src d c st) = ml_model st"
  by (simp_all add: create_threat_alert_def)

lemma create_threat_alert_alerts:
  "threat_alerts (create_threat_alert now ty sev src d c st) =
     threat_alerts st @ [\<lparr>alert_timestamp = now, threat_type = ty, severity = sev,
                           source_ip = src, description = d, confidence = c\<rparr>]"
  by (simp add: create_threat_alert_def)

lemma analyze_packet_frame:
  "packet_buffer (analyze_packet now st p) = packet_buffer st"
  "maxlen (analyze_packet now st p) = maxlen st"
  "ml_model (analyze_packet now st p) = ml_model st"
  by (simp_all add: analyze_packet_def Let_def create_threat_alert_frame)

lemma packet_callback_buffer:
  "packet_buffer (packet_callback now st p) = deque_append (maxlen st) (packet_buffer st) p"
  by (simp add: packet_callback_def Let_def analyze_packet_frame)

lemma packet_callback_model:
  "ml_model (packet_callback now st p) = ml_model st"
  by (simp add: packet_callback_def Let_def analyze_packet_frame)

lemma anomaly_alerts_frame:
  "ml_model (anomaly_alerts now n es st) = ml_model st"
  "packet_buffer (anomaly_alerts now n es st) = packet_buffer st"
  "maxlen (anomaly_alerts now n es st) = maxlen st"
  by (induction now n es st rule: anomaly_alerts.induct)
     (simp_all add: create_threat_alert_frame split: option.splits)

section \<open>The alerts of one packet\<close>

lemma analyze_packet_alerts:
  "threat_alerts (analyze_packet now st p) =
     threat_alerts st
       @ (if detect_port_scan now (packet_buffer st) p then [scan_alert now p] else [])
       @ (if detect_suspicious_port p then [sensitive_port_alert now p] else [])
       @ (if detect_ddos now (packet_buffer st) p then [flood_alert now p] else [])"
  by (simp add: analyze_packet_def Let_def create_threat_alert_frame
      create_threat_alert_alerts scan_alert_def sensitive_port_alert_def flood_alert_def)

lemma packet_callback_alerts:
  "threat_alerts (packet_callback now st p) =
     threat_alerts st
       @ (if detect_port_scan now (deque_append (maxlen st) (packet_buffer st) p) p
          then [scan_alert now p] else [])
       @ (if detect_suspicious_port p then [sensitive_port_alert now p] else [])
       @ (if detect_ddos now (deque_append (maxlen st) (packet_buffer st) p) p
          then [flood_alert now p] else [])"
  by (simp add: packet_callback_def Let_def analyze_packet_alerts)

lemma packet_callback_new_alerts:
  "drop (length (threat_alerts st)) (threat_alerts (packet_callback now st p)) =
     (if detect_port_scan now (deque_append (maxlen st) (packet_buffer st) p) p
      then [scan_alert now p] else [])
     @ (if detect_suspicious_port p then [sensitive_port_alert now p] else [])
     @ (if detect_ddos now (deque_append (maxlen st) (packet_buffer st) p) p
        then [flood_alert now p] else [])"
  by (simp add: packet_callback_alerts)

lemma alert_kinds:
  "threat_type (scan_alert now p) = ''PORT_SCAN''"
  "threat_type (sensitive_port_alert now p) = ''SUSPICIOUS_PORT''"
  "threat_type (flood_alert now p) = ''DDOS''"
  by (simp_all add: scan_alert_def sensitive_port_alert_def flood_alert_def)

lemma all_detectors_fire_together:
  "detect_port_scan 2 (packet_buffer (packet_callback 2 busy_ids (tcp_packet 2 ''a'' 22)))
     (tcp_packet 2 ''a'' 22) \<and>
   detect_suspicious_port (tcp_packet 2 ''a'' 22) \<and>
   detect_ddos 2 (packet_buffer (packet_callback 2 busy_ids (tcp_packet 2 ''a'' 22)))
     (tcp_packet 2 ''a'' 22)"
  by code_simp

section \<open>The rolling window\<close>

lemma sorted_hd_min: "sorted (map f xs) \<Longrightarrow> p \<in> set xs \<Longrightarrow> f (hd xs) \<le> f p"
  by (cases xs) auto

text \<open>
  C2. A window that holds exactly \<^verbatim>\<open>maxlen\<close> records still holds \<^verbatim>\<open>maxlen\<close> records after
  one more record is ingested. Where the window held a record at all, its old contents
  followed by the new record are the old head followed by the new contents: exactly the
  head left, and, the records having arrived in non-decreasing timestamp order, no
  record that was present has a smaller timestamp than the head. (A window of capacity
  0 holds nothing before and after; there the record dropped is the new one.)
\<close>

theorem window_at_capacity_evicts_oldest:
  assumes cap: "length (packet_buffer st) = maxlen st"
    and ord: "sorted (map timestamp (packet_buffer st))"
  shows "length (packet_buffer (packet_callback now st r)) = maxlen st \<and>
         (packet_buffer st \<noteq> [] \<longrightarrow>
            packet_buffer st @ [r] =
              hd (packet_buffer st) # packet_buffer (packet_callback now st r) \<and>
            (\<forall>p\<in>set (packet_buffer st). timestamp (hd (packet_buffer st)) \<le> timestamp p))"
proof -
  have "length (packet_buffer (packet_callback now st r)) = maxlen st"
    using cap by (simp add: packet_callback_buffer deque_append_def)
  moreover have "packet_buffer st @ [r] =
      hd (packet_buffer st) # packet_buffer (packet_callback now st r)"
    if "packet_buffer st \<noteq> []"
    using cap that
    by (cases "packet_buffer st") (simp_all add: packet_callback_buffer deque_append_def)
  moreover have "\<forall>p\<in>set (packet_buffer st). timestamp (hd (packet_buffer st)) \<le> timestamp p"
    using ord by (auto intro: sorted_hd_min)
  ultimately show ?thesis by blast
qed

theorem window_at_capacity_evicts_oldest_witness:
  "length (packet_buffer full_window) = maxlen full_window \<and>
   sorted (map timestamp (packet_buffer full_window)) \<and>
   packet_buffer full_window \<noteq> [] \<and>
   length (packet_buffer (packet_callback 5 full_window (tcp_packet 4 ''c'' 22))) = 3 \<and>
   packet_buffer full_window @ [tcp_packet 4 ''c'' 22] =
     tcp_packet 1 ''a'' 80 # packet_buffer (packet_callback 5 full_window (tcp_packet 4 ''c'' 22)) \<and>
   list_all (\<lambda>p. timestamp (tcp_packet 1 ''a'' 80) \<le> timestamp p) (packet_buffer full_window)"
proof -
  have cap: "length (packet_buffer full_window) = maxlen full_window"
    by code_simp
  have ord: "sorted (map timestamp (packet_buffer full_window))"
    by code_simp
  have ne: "packet_buffer full_window \<noteq> []"
    by code_simp
  have hd: "hd (packet_buffer full_window) = tcp_packet 1 ''a'' 80"
    by (simp add: full_window_def)
  have m: "maxlen full_window = 3"
    by (simp add: full_window_def init_ids_def)
  from window_at_capacity_evicts_oldest [OF cap ord, of 5 "tcp_packet 4 ''c'' 22"] ne
  show ?thesis
    using cap ord by (simp add: hd m list_all_iff)
qed

section \<open>The rule detectors\<close>

lemma truthy_ports:
  "set (map (\<lambda>p. the (dst_port p)) (filter (\<lambda>p. truthy (dst_port p)) packets)) =
     {n. n \<noteq> 0 \<and> (\<exists>p\<in>set packets. dst_port p = Some n)}"
  by (force simp: truthy_def split: option.splits)

lemma scan_fires_at_21_not_at_20:
  "detect_port_scan 2 (port_sweep 1 22) (tcp_packet 1 ''a'' 21) \<and>
   \<not> detect_port_scan 2 (port_sweep 1 21) (tcp_packet 1 ''a'' 20)"
  by code_simp

text \<open>
  C3, as the code has it. The scan detector fires exactly when the ingested record has
  a destination port other than 0 and more than 20 distinct destination ports other
  than 0 occur among the window records of the same source that are younger than 60
  seconds.
\<close>

theorem detect_port_scan_iff:
  "detect_port_scan now buf packet \<longleftrightarrow>
     (\<exists>n. dst_port packet = Some n \<and> n \<noteq> 0) \<and>
     20 < card {n. n \<noteq> 0 \<and>
                 (\<exists>p\<in>set buf. src_ip p = src_ip packet \<and> now - timestamp p < 60
                                \<and> dst_port p = Some n)}"
proof -
  have t: "truthy (dst_port packet) \<longleftrightarrow> (\<exists>n. dst_port packet = Some n \<and> n \<noteq> 0)"
    by (simp add: truthy_def split: option.splits)
  have s: "{n. n \<noteq> 0 \<and>
              (\<exists>p\<in>set (filter (\<lambda>p. src_ip p = src_ip packet \<and> now - timestamp p < 60) buf).
                 dst_port p = Some n)} =
           {n. n \<noteq> 0 \<and>
              (\<exists>p\<in>set buf. src_ip p = src_ip packet \<and> now - timestamp p < 60
                             \<and> dst_port p = Some n)}"
    by auto
  show ?thesis
    unfolding detect_port_scan_def Let_def truthy_ports s t by auto
qed

text \<open>
  C3, as the specification states it, fails twice. A record without a destination port
  is ingested into a window that holds 21 distinct ports of its source, all younger than
  60 seconds: the condition of the specification holds and the detector is silent. And
  with the 21 distinct ports \<open>0, \<dots>, 20\<close> in the window the condition holds, and the
  detector, which does not count port 0, is silent.
\<close>

theorem detect_port_scan_not_scan_condition:
  "\<not> (detect_port_scan 2 (port_sweep 1 22 @ [icmp_packet 2 ''a'']) (icmp_packet 2 ''a'') \<longleftrightarrow>
        scan_condition 2 (port_sweep 1 22 @ [icmp_packet 2 ''a'']) (icmp_packet 2 ''a'')) \<and>
   \<not> (detect_port_scan 2 (port_sweep 0 21) (tcp_packet 1 ''a'' 20) \<longleftrightarrow>
        scan_condition 2 (port_sweep 0 21) (tcp_packet 1 ''a'' 20))"
  by code_simp

lemma sum_list_ones: "sum_list (map (\<lambda>p. (1::int)) xs) = int (length xs)"
  by (induction xs) simp_all

lemma flood_fires_at_101_not_at_100:
  "detect_ddos 2 (port_sweep 0 101) (tcp_packet 1 ''a'' 20) \<and>
   \<not> detect_ddos 2 (port_sweep 0 100) (tcp_packet 1 ''a'' 20)"
  by code_simp

text \<open>
  C4. The flood detector fires exactly when more than 100 positions of the window hold
  a record of the ingested record's source that is younger than 10 seconds.
\<close>

theorem detect_ddos_iff:
  "detect_ddos now buf packet \<longleftrightarrow>
     100 < card {i. i < length buf \<and> src_ip (buf ! i) = src_ip packet
                    \<and> now - timestamp (buf ! i) < 10}"
  by (simp add: detect_ddos_def Let_def sum_list_ones length_filter_conv_card)

lemma detect_suspicious_port_set:
  "detect_suspicious_port q \<longleftrightarrow>
     dst_port q \<in> Some ` {22, 23, 135, 139, 445, 1433, 3389, 5432, 5900, 6379}"
  by (auto simp: detect_suspicious_port_def suspicious_ports_def split: option.splits)

text \<open>
  C5. The sensitive-port detector fires exactly when the record's destination port is
  one of the ten listed ports. Its answer does not change when every other field of
  the record changes, it is negative for a record without a destination port, and the
  callback emits a \<^verbatim>\<open>SUSPICIOUS_PORT\<close> alert for a record exactly under the same condition,
  whatever the state and the window are.
\<close>

theorem detect_suspicious_port_iff:
  "(detect_suspicious_port packet \<longleftrightarrow>
      dst_port packet \<in> Some ` {22, 23, 135, 139, 445, 1433, 3389, 5432, 5900, 6379})
   \<and> detect_suspicious_port
        (packet\<lparr>timestamp := t, src_ip := s, dst_ip := d, protocol := pr, length_pkt := l,
                 src_port := sp, flags := f\<rparr>) = detect_suspicious_port packet
   \<and> \<not> detect_suspicious_port (packet\<lparr>dst_port := None\<rparr>)
   \<and> ((\<exists>a\<in>set (drop (length (threat_alerts st))
                   (threat_alerts (packet_callback now st packet))).
          threat_type a = ''SUSPICIOUS_PORT'') \<longleftrightarrow>
        dst_port packet \<in> Some ` {22, 23, 135, 139, 445, 1433, 3389, 5432, 5900, 6379})"
proof -
  have b: "(\<exists>a\<in>set (drop (length (threat_alerts st))
                     (threat_alerts (packet_callback now st packet))).
             threat_type a = ''SUSPICIOUS_PORT'') \<longleftrightarrow> detect_suspicious_port packet"
    unfolding packet_callback_new_alerts by (auto simp: alert_kinds)
  have c: "detect_suspicious_port
        (packet\<lparr>timestamp := t, src_ip := s, dst_ip := d, protocol := pr, length_pkt := l,
                 src_port := sp, flags := f\<rparr>) = detect_suspicious_port packet"
    by (simp add: detect_suspicious_port_def)
  have d: "\<not> detect_suspicious_port (packet\<lparr>dst_port := None\<rparr>)"
    by (simp add: detect_suspicious_port_def)
  show ?thesis
    using b c d detect_suspicious_port_set [of packet] by blast
qed

text \<open>
  C6. The alerts one ingested record adds are, in this order: the scan alert (\<^verbatim>\<open>HIGH\<close>,
  0.8) if the scan detector fires, the sensitive-port alert (\<^verbatim>\<open>MEDIUM\<close>, 0.6) if the
  sensitive-port detector fires, the flood alert (\<^verbatim>\<open>CRITICAL\<close>, 0.9) if the flood detector
  fires; each detector decides on its own and contributes one alert or none. There is a
  record on which all three fire.
\<close>

theorem rule_detectors_in_order:
  "threat_alerts (packet_callback now st packet) =
     threat_alerts st
       @ (if detect_port_scan now (packet_buffer (packet_callback now st packet)) packet
          then [\<lparr>alert_timestamp = now, threat_type = ''PORT_SCAN'', severity = ''HIGH'',
                  source_ip = src_ip packet,
                  description = ''Port scan detected from '' @ src_ip packet,
                  confidence = 0.8\<rparr>]
          else [])
       @ (if detect_suspicious_port packet
          then [\<lparr>alert_timestamp = now, threat_type = ''SUSPICIOUS_PORT'',
                  severity = ''MEDIUM'', source_ip = src_ip packet,
                  description = ''Connection to suspicious port ''
                                  @ str_port (dst_port packet) @ '' from '' @ src_ip packet,
                  confidence = 0.6\<rparr>]
          else [])
       @ (if detect_ddos now (packet_buffer (packet_callback now st packet)) packet
          then [\<lparr>alert_timestamp = now, threat_type = ''DDOS'', severity = ''CRITICAL'',
                  source_ip = src_ip packet,
                  description = ''Potential DDoS attack from '' @ src_ip packet,
                  confidence = 0.9\<rparr>]
          else [])
   \<and> (\<exists>t w p. detect_port_scan t w p \<and> detect_suspicious_port p \<and> detect_ddos t w p)"
proof -
  have ex: "\<exists>t w p. detect_port_scan t w p \<and> detect_suspicious_port p \<and> detect_ddos t w p"
    using all_detectors_fire_together by blast
  have "threat_alerts (packet_callback now st packet) =
     threat_alerts st
       @ (if detect_port_scan now (packet_buffer (packet_callback now st packet)) packet
          then [scan_alert now packet] else [])
       @ (if detect_suspicious_port packet then [sensitive_port_alert now packet] else [])
       @ (if detect_ddos now (packet_buffer (packet_callback now st packet)) packet
          then [flood_alert now packet] else [])"
    unfolding packet_callback_alerts packet_callback_buffer ..
  then show ?thesis
    using ex by (simp add: scan_alert_def sensitive_port_alert_def flood_alert_def)
qed

text \<open>
  C9. For a record whose destination port is absent or 0 the scan detector answers no
  on every window, and none of the alerts the callback adds for the record is a
  \<^verbatim>\<open>PORT_SCAN\<close> alert.
\<close>

theorem no_port_no_scan_alert:
  assumes "dst_port packet = None \<or> dst_port packet = Some 0"
  shows "\<not> detect_port_scan now buf packet \<and>
         (\<forall>a\<in>set (drop (length (threat_alerts st))
                     (threat_alerts (packet_callback now st packet))).
            threat_type a \<noteq> ''PORT_SCAN'')"
proof -
  have no: "\<not> detect_port_scan now b packet" for b
    using assms by (auto simp: detect_port_scan_def truthy_def)
  show ?thesis
    unfolding packet_callback_new_alerts using no by (auto simp: alert_kinds)
qed

text \<open>
  The window of \<open>swept_ids\<close> holds 21 distinct ports of source \<open>a\<close>, one second old; a
  record of \<open>a\<close> without a port is ingested.
\<close>

theorem no_port_no_scan_alert_witness:
  "dst_port (icmp_packet 2 ''a'') = None \<and>
   20 < card (distinct_dst_ports
          (filter (\<lambda>p. src_ip p = ''a'' \<and> 2 - timestamp p < 60)
             (packet_buffer (packet_callback 2 swept_ids (icmp_packet 2 ''a''))))) \<and>
   \<not> detect_port_scan 2 (packet_buffer (packet_callback 2 swept_ids (icmp_packet 2 ''a'')))
        (icmp_packet 2 ''a'') \<and>
   \<not> (\<exists>a\<in>set (drop (length (threat_alerts swept_ids))
                  (threat_alerts (packet_callback 2 swept_ids (icmp_packet 2 ''a'')))).
         threat_type a = ''PORT_SCAN'')"
proof -
  have h: "dst_port (icmp_packet 2 ''a'') = None"
    by (simp add: icmp_packet_def)
  then have h': "dst_port (icmp_packet 2 ''a'') = None \<or> dst_port (icmp_packet 2 ''a'') = Some 0"
    by simp
  have c: "20 < card (distinct_dst_ports
          (filter (\<lambda>p. src_ip p = ''a'' \<and> 2 - timestamp p < 60)
             (packet_buffer (packet_callback 2 swept_ids (icmp_packet 2 ''a'')))))"
    by code_simp
  from no_port_no_scan_alert [OF h',
      of 2 "packet_buffer (packet_callback 2 swept_ids (icmp_packet 2 ''a''))" swept_ids]
  show ?thesis
    using h c by blast
qed

section \<open>Feature extraction\<close>

lemma ip_groups_snoc: "ip_groups (buf @ [p]) = ip_groups_add (ip_groups buf) p"
  by (simp add: ip_groups_def)

lemma ip_groups_add_keys:
  "map fst (ip_groups_add g p) =
     (if src_ip p \<in> set (map fst g) then map fst g else map fst g @ [src_ip p])"
  by (induction g p rule: ip_groups_add.induct) auto

lemma ip_groups_add_lookup:
  "distinct (map fst g) \<Longrightarrow>
   map_of (ip_groups_add g p) ip =
     (if ip = src_ip p
      then Some ((case map_of g ip of None \<Rightarrow> [] | Some ps \<Rightarrow> ps) @ [p])
      else map_of g ip)"
  by (induction g p rule: ip_groups_add.induct) (auto split: option.splits)

lemma ip_groups_keys_distinct: "distinct (map fst (ip_groups buf))"
  by (induction buf rule: rev_induct)
     (simp_all add: ip_groups_def ip_groups_snoc ip_groups_add_keys)

lemma ip_groups_keys_set: "set (map fst (ip_groups buf)) = src_ip ` set buf"
  by (induction buf rule: rev_induct)
     (auto simp: ip_groups_def ip_groups_snoc ip_groups_add_keys)

text \<open>The group stored under a key holds the window's records of that source, in order.\<close>

lemma ip_groups_lookup:
  "map_of (ip_groups buf) ip =
     (if ip \<in> src_ip ` set buf then Some (filter (\<lambda>p. src_ip p = ip) buf) else None)"
proof (induction buf arbitrary: ip rule: rev_induct)
  case Nil
  show ?case by (simp add: ip_groups_def)
next
  case (snoc p buf)
  have e: "filter (\<lambda>q. src_ip q = a) buf = []" if "a \<notin> src_ip ` set buf" for a
    using that by (auto simp: filter_empty_conv)
  show ?case
  proof (cases "ip = src_ip p")
    case True
    then show ?thesis
      unfolding ip_groups_snoc
      by (simp add: ip_groups_add_lookup [OF ip_groups_keys_distinct] snoc e)
  next
    case False
    then show ?thesis
      unfolding ip_groups_snoc
      by (simp add: ip_groups_add_lookup [OF ip_groups_keys_distinct] snoc)
  qed
qed

lemma ip_groups_eq:
  "ip_groups buf = map (\<lambda>ip. (ip, filter (\<lambda>p. src_ip p = ip) buf)) (map fst (ip_groups buf))"
proof -
  have "ps = filter (\<lambda>p. src_ip p = ip) buf" if m: "(ip, ps) \<in> set (ip_groups buf)" for ip ps
  proof -
    from m have "map_of (ip_groups buf) ip = Some ps"
      using ip_groups_keys_distinct by simp
    then show ?thesis
      by (simp add: ip_groups_lookup split: if_splits)
  qed
  then have "\<forall>x\<in>set (ip_groups buf). x = (fst x, filter (\<lambda>p. src_ip p = fst x) buf)"
    by auto
  then have "map (\<lambda>x. (fst x, filter (\<lambda>p. src_ip p = fst x) buf)) (ip_groups buf) = ip_groups buf"
    by (simp add: map_idI)
  then show ?thesis
    by (simp add: comp_def)
qed

lemma extract_features_eq:
  "extract_features buf =
     map (\<lambda>ip. group_features (filter (\<lambda>p. src_ip p = ip) buf))
       (filter (\<lambda>ip. 5 \<le> length (filter (\<lambda>p. src_ip p = ip) buf)) (map fst (ip_groups buf)))"
proof -
  have "extract_features buf =
      map (\<lambda>(ip, packets). group_features packets)
        (filter (\<lambda>(ip, packets). \<not> length packets < 5)
           (map (\<lambda>ip. (ip, filter (\<lambda>p. src_ip p = ip) buf)) (map fst (ip_groups buf))))"
    unfolding extract_features_def using ip_groups_eq [of buf] by simp
  then show ?thesis
    by (simp add: filter_map comp_def not_less)
qed

lemma group_features_eq:
  "group_features g =
     [real (length g) / max 1 (Max (timestamp ` set g) - Min (timestamp ` set g)),
      real_of_int (\<Sum>p\<leftarrow>g. length_pkt p) / real (length g),
      real (card {n. n \<noteq> 0 \<and> (\<exists>p\<in>set g. dst_port p = Some n)}),
      real (card (protocol ` set g))]"
  unfolding group_features_def Let_def truthy_ports by simp

lemma extract_features_length: "length (extract_features buf) \<le> length buf"
proof -
  have "length (extract_features buf) \<le> length (map fst (ip_groups buf))"
    by (simp add: extract_features_def)
  also have "\<dots> = card (src_ip ` set buf)"
    using distinct_card [OF ip_groups_keys_distinct [of buf]]
    unfolding ip_groups_keys_set by simp
  also have "\<dots> \<le> card (set buf)"
    by (simp add: card_image_le)
  also have "\<dots> \<le> length buf"
    by (rule card_length)
  finally show ?thesis .
qed

text \<open>
  C7, as the code has it. The keys of the grouping are the source addresses of the
  window, each once. Feature extraction yields one vector for each source address with
  at least 5 records in the window, and none for the others. The vector of a source is
  computed from the window's records \<open>g\<close> of that source and has four entries: the size
  of \<open>g\<close> divided by the larger of 1 and the span of its timestamps, a divisor that is
  never below 1; the mean of the byte lengths; the number of distinct destination ports
  other than 0 in \<open>g\<close>, so that a record whose port is absent or 0 contributes none; and
  the number of distinct protocol tags in \<open>g\<close>.
\<close>

theorem extract_features_per_source:
  "distinct (map fst (ip_groups buf)) \<and>
   set (map fst (ip_groups buf)) = src_ip ` set buf \<and>
   extract_features buf =
     map (\<lambda>ip. let g = filter (\<lambda>p. src_ip p = ip) buf in
            [real (length g) / max 1 (Max (timestamp ` set g) - Min (timestamp ` set g)),
             real_of_int (\<Sum>p\<leftarrow>g. length_pkt p) / real (length g),
             real (card {n. n \<noteq> 0 \<and> (\<exists>p\<in>set g. dst_port p = Some n)}),
             real (card (protocol ` set g))])
       (filter (\<lambda>ip. 5 \<le> length (filter (\<lambda>p. src_ip p = ip) buf))
          (map fst (ip_groups buf))) \<and>
   list_all (\<lambda>v. length v = 4) (extract_features buf) \<and>
   (\<forall>g. (1::real) \<le> max 1 (Max (timestamp ` set g) - Min (timestamp ` set g)))"
proof -
  have l: "list_all (\<lambda>v. length v = 4) (extract_features buf)"
    unfolding extract_features_eq by (simp add: list_all_iff group_features_eq)
  show ?thesis
    using l ip_groups_keys_distinct [of buf] ip_groups_keys_set [of buf]
    by (simp add: extract_features_eq group_features_eq Let_def)
qed

text \<open>
  C7, as the specification states it, fails on port 0. Five records of one source, all
  to destination port 0: one distinct destination port is present in the group, and the
  third feature of its vector is 0.
\<close>

theorem extract_features_ignores_port_zero:
  "extract_features port_zero_window = [5, 60, 0, 1] # [] \<and>
   real (card (distinct_dst_ports port_zero_window)) = 1 \<and>
   extract_features port_zero_window ! 0 ! 2 \<noteq> real (card (distinct_dst_ports port_zero_window))"
  by code_simp

section \<open>The anomaly scorer\<close>

lemma ml_analysis_few:
  "length (extract_features (packet_buffer st)) < 10 \<Longrightarrow> ml_analysis sk now st = st"
  by (simp add: ml_analysis_def Let_def)

lemma ml_analysis_fit:
  "10 \<le> length (extract_features (packet_buffer st)) \<Longrightarrow> ml_model st = None \<Longrightarrow>
   ml_analysis sk now st =
     st\<lparr>ml_model := Some (fit sk (fit_transform sk (extract_features (packet_buffer st))))\<rparr>"
  by (simp add: ml_analysis_def Let_def)

lemma ml_analysis_score:
  "10 \<le> length (extract_features (packet_buffer st)) \<Longrightarrow> ml_model st = Some m \<Longrightarrow>
   ml_analysis sk now st =
     anomaly_alerts now (length (extract_features (packet_buffer st)))
       (enumerate_py
          (zip (predict sk m (fit_transform sk (extract_features (packet_buffer st))))
               (decision_function sk m (fit_transform sk (extract_features (packet_buffer st))))))
       st"
  by (simp add: ml_analysis_def Let_def)

lemma ml_analysis_keeps_model:
  "ml_model st = Some m \<Longrightarrow> ml_model (ml_analysis sk now st) = Some m"
  by (simp add: ml_analysis_def Let_def anomaly_alerts_frame)

lemma ml_analysis_untrained_alerts:
  "ml_model st = None \<Longrightarrow> threat_alerts (ml_analysis sk now st) = threat_alerts st"
  by (simp add: ml_analysis_def Let_def)

lemma cycle_skips:
  "length (packet_buffer st) \<le> 100 \<or> length (extract_features (packet_buffer st)) < 10 \<Longrightarrow>
   continuous_analysis_cycle sk now st = st"
  by (auto simp: continuous_analysis_cycle_def ml_analysis_few)

lemma cycle_runs:
  "100 < length (packet_buffer st) \<Longrightarrow>
   continuous_analysis_cycle sk now st = ml_analysis sk now st"
  by (simp add: continuous_analysis_cycle_def)

lemma cycle_keeps_model:
  "ml_model st = Some m \<Longrightarrow> ml_model (continuous_analysis_cycle sk now st) = Some m"
  by (simp add: continuous_analysis_cycle_def ml_analysis_keeps_model)

lemma cycle_untrained_alerts:
  "ml_model st = None \<Longrightarrow>
   threat_alerts (continuous_analysis_cycle sk now st) = threat_alerts st"
  by (simp add: continuous_analysis_cycle_def ml_analysis_untrained_alerts)

lemma step_keeps_model:
  "ml_model st = Some m \<Longrightarrow> ml_model (step sk st e) = Some m"
  by (cases e) (simp_all add: packet_callback_model cycle_keeps_model)

lemma run_keeps_model:
  "ml_model st = Some m \<Longrightarrow> ml_model (run sk st evs) = Some m"
  unfolding run_def
  by (induction evs arbitrary: st) (simp_all add: step_keeps_model)

lemma run_first_fit:
  "ml_model st = None \<Longrightarrow>
   ml_model (run sk st evs) =
     map_option (\<lambda>X. fit sk (fit_transform sk X)) (first_batch sk st evs)"
proof (induction evs arbitrary: st)
  case Nil
  then show ?case by (simp add: run_def)
next
  case (Cons e evs)
  show ?case
  proof (cases e)
    case (Packet now p)
    have "ml_model (packet_callback now st p) = None"
      using Cons.prems by (simp add: packet_callback_model)
    from Cons.IH [OF this] show ?thesis
      using Packet by (simp add: run_def)
  next
    case (Analysis now)
    show ?thesis
    proof (cases "100 < length (packet_buffer st) \<and>
        \<not> length (extract_features (packet_buffer st)) < 10")
      case False
      then have same: "continuous_analysis_cycle sk now st = st"
        by (intro cycle_skips) auto
      have fb: "first_batch sk st (e # evs) = first_batch sk st evs"
        using Analysis False same by (auto simp: Let_def)
      have "ml_model (run sk st (e # evs)) = ml_model (run sk st evs)"
        using Analysis same by (simp add: run_def)
      also have "\<dots> = map_option (\<lambda>X. fit sk (fit_transform sk X)) (first_batch sk st evs)"
        by (rule Cons.IH [OF Cons.prems])
      finally show ?thesis
        unfolding fb .
    next
      case True
      then have *: "ml_model (continuous_analysis_cycle sk now st) =
          Some (fit sk (fit_transform sk (extract_features (packet_buffer st))))"
        using Cons.prems by (simp add: cycle_runs ml_analysis_fit)
      have fb: "first_batch sk st (e # evs) = Some (extract_features (packet_buffer st))"
        using Analysis True by (simp add: Let_def)
      have "ml_model (run sk (continuous_analysis_cycle sk now st) evs) =
          Some (fit sk (fit_transform sk (extract_features (packet_buffer st))))"
        by (rule run_keeps_model [OF *])
      then have "ml_model (run sk st (e # evs)) =
          Some (fit sk (fit_transform sk (extract_features (packet_buffer st))))"
        using Analysis by (simp add: run_def)
      then show ?thesis
        unfolding fb by simp
    qed
  qed
qed

subsection \<open>The alerts of a scoring cycle\<close>

lemma py_index_from_end:
  "i < n \<Longrightarrow> n \<le> length xs \<Longrightarrow>
   py_index xs (- (int n - int i)) = Some (xs ! (length xs - n + i))"
  by (auto simp: py_index_def Let_def nat_diff_distrib' intro!: arg_cong [where f = "nth xs"])

lemma anomaly_alerts_emitted:
  "n \<le> length (packet_buffer st) \<Longrightarrow> list_all (\<lambda>e. fst e < n) es \<Longrightarrow>
   threat_alerts (anomaly_alerts now n es st) =
     threat_alerts st
       @ map (\<lambda>e. anomaly_alert now
                    (packet_buffer st ! (length (packet_buffer st) - n + fst e)) (snd (snd e)))
           (filter (\<lambda>e. fst (snd e) = - 1) es)"
proof (induction now n es st rule: anomaly_alerts.induct)
  case (1 now n st)
  show ?case by simp
next
  case (2 now n i is_anomaly score rest st)
  have i: "i < n" and r: "list_all (\<lambda>e. fst e < n) rest"
    using "2.prems"(2) by simp_all
  show ?case
  proof (cases "is_anomaly = - 1")
    case True
    have ix: "py_index (packet_buffer st) (- (int n - int i)) =
        Some (packet_buffer st ! (length (packet_buffer st) - n + i))"
      using i "2.prems"(1) by (rule py_index_from_end)
    have b: "n \<le> length (packet_buffer
        (create_threat_alert now ''ANOMALY'' ''MEDIUM''
          (src_ip (packet_buffer st ! (length (packet_buffer st) - n + i)))
          (''Anomalous network behavior detected from ''
             @ src_ip (packet_buffer st ! (length (packet_buffer st) - n + i)))
          \<bar>score\<bar> st))"
      using "2.prems"(1) by (simp add: create_threat_alert_frame)
    show ?thesis
      using True ix "2.IH"(1) [OF True ix b r]
      by (simp add: create_threat_alert_frame create_threat_alert_alerts anomaly_alert_def)
  next
    case False
    show ?thesis
      using False "2.IH"(2) [OF False "2.prems"(1) r] by simp
  qed
qed

lemma enumerate_py_bound:
  "length xs \<le> n \<Longrightarrow> list_all (\<lambda>e. fst e < n) (enumerate_py xs)"
  by (auto simp: enumerate_py_def list_all_iff dest!: set_zip_leftD)

text \<open>
  What a cycle of the trained scorer emits, when the library labels no more vectors than
  it was given: one alert for each entry labelled \<open>- 1\<close>, in order, of kind
  \<^verbatim>\<open>ANOMALY\<close> and severity \<^verbatim>\<open>MEDIUM\<close>, with the absolute value of the entry's score as
  confidence. The source it names is that of the window record at position
  \<open>length window - length features + i\<close>: the \<open>i\<close>-th of the last \<open>length features\<close>
  records of the window, whatever group the \<open>i\<close>-th vector was extracted from. The
  index is always in range, so the loop never leaves early.
\<close>

theorem ml_analysis_trained_alerts:
  assumes m: "ml_model st = Some m"
    and ten: "10 \<le> length (extract_features (packet_buffer st))"
    and len: "length (predict sk m (fit_transform sk (extract_features (packet_buffer st))))
                \<le> length (extract_features (packet_buffer st))"
  shows "threat_alerts (ml_analysis sk now st) =
     threat_alerts st
       @ map (\<lambda>e. anomaly_alert now
                    (packet_buffer st
                       ! (length (packet_buffer st) - length (extract_features (packet_buffer st))
                            + fst e))
                    (snd (snd e)))
           (filter (\<lambda>e. fst (snd e) = - 1)
              (enumerate_py
                 (zip (predict sk m (fit_transform sk (extract_features (packet_buffer st))))
                      (decision_function sk m
                         (fit_transform sk (extract_features (packet_buffer st)))))))"
proof -
  let ?X = "extract_features (packet_buffer st)"
  let ?es = "enumerate_py (zip (predict sk m (fit_transform sk ?X))
                               (decision_function sk m (fit_transform sk ?X)))"
  have run: "ml_analysis sk now st = anomaly_alerts now (length ?X) ?es st"
    using m ten by (simp add: ml_analysis_def Let_def)
  have b: "list_all (\<lambda>e. fst e < length ?X) ?es"
    using len by (intro enumerate_py_bound) simp
  show ?thesis
    unfolding run by (rule anomaly_alerts_emitted [OF extract_features_length b])
qed

text \<open>The trained sample state: the one alert names the record at window position 40.\<close>

theorem ml_analysis_trained_alerts_witness:
  "ml_model trained_ids = Some [] \<and>
   10 \<le> length (extract_features (packet_buffer trained_ids)) \<and>
   length (predict flag_first [] (fit_transform flag_first (extract_features (packet_buffer trained_ids))))
     \<le> length (extract_features (packet_buffer trained_ids)) \<and>
   threat_alerts (ml_analysis flag_first 100 trained_ids) =
     [anomaly_alert 100 (packet_buffer trained_ids ! 40) (- (1 / 4))] \<and>
   src_ip (packet_buffer trained_ids ! 40) = ''i''"
proof -
  have m: "ml_model trained_ids = Some []"
    by (simp add: trained_ids_def)
  have ten: "10 \<le> length (extract_features (packet_buffer trained_ids))"
    by code_simp
  have len: "length (predict flag_first []
        (fit_transform flag_first (extract_features (packet_buffer trained_ids))))
      \<le> length (extract_features (packet_buffer trained_ids))"
    by code_simp
  have rhs: "threat_alerts trained_ids
       @ map (\<lambda>e. anomaly_alert 100
                    (packet_buffer trained_ids
                       ! (length (packet_buffer trained_ids)
                            - length (extract_features (packet_buffer trained_ids)) + fst e))
                    (snd (snd e)))
           (filter (\<lambda>e. fst (snd e) = - 1)
              (enumerate_py
                 (zip (predict flag_first [] (fit_transform flag_first (extract_features (packet_buffer trained_ids))))
                      (decision_function flag_first []
                         (fit_transform flag_first (extract_features (packet_buffer trained_ids)))))))
       = [anomaly_alert 100 (packet_buffer trained_ids ! 40) (- (1 / 4))]"
    by code_simp
  have src: "src_ip (packet_buffer trained_ids ! 40) = ''i''"
    by code_simp
  show ?thesis
    using ml_analysis_trained_alerts [OF m ten len, of 100] m ten len src
    unfolding rhs by simp
qed

text \<open>
  C1, at an input where the code departs from it. The window of \<open>trained_ids\<close> holds ten
  sources \<open>a, \<dots>, j\<close> with five records each; the scorer is trained and labels the first
  vector, and no other, an outlier. That vector was extracted from the group of source
  \<open>a\<close>. One alert is emitted, of kind \<^verbatim>\<open>ANOMALY\<close>, severity \<^verbatim>\<open>MEDIUM\<close> and confidence
  \<open>1/4\<close>, the absolute value of the score; the source it names is \<open>i\<close>.
\<close>

theorem anomaly_alert_names_window_tail:
  "predict flag_first [] (fit_transform flag_first (extract_features (packet_buffer trained_ids))) =
     [- 1, 1, 1, 1, 1, 1, 1, 1, 1, 1] \<and>
   map fst (filter (\<lambda>(ip, packets). \<not> length packets < 5)
              (ip_groups (packet_buffer trained_ids))) ! 0 = ''a'' \<and>
   map (\<lambda>a. (threat_type a, severity a, source_ip a, confidence a))
     (threat_alerts (ml_analysis flag_first 100 trained_ids)) =
     [(''ANOMALY'', ''MEDIUM'', ''i'', 1 / 4)]"
  by code_simp

text \<open>
  The same through the analysis thread, on the window of 110 records: the scorer labels
  the vector of source \<open>a\<close>, and the alert names the record at position 100, of source \<open>j\<close>.
\<close>

lemma anomaly_alert_names_window_tail_in_cycle:
  "map fst (filter (\<lambda>(ip, packets). \<not> length packets < 5)
              (ip_groups (packet_buffer trained_large))) ! 0 = ''a'' \<and>
   map (\<lambda>a. (threat_type a, severity a, source_ip a, confidence a))
     (threat_alerts (run flag_first trained_large (Analysis 100 # []))) =
     (''ANOMALY'', ''MEDIUM'', ''j'', 1 / 4) # []"
  by code_simp

text \<open>
  C8, as the code has it. A cycle of the analysis thread that finds at most 100 records
  in the window, or extracts fewer than ten feature vectors from it, leaves the state as
  it is: no fit, no scoring, no alert. A cycle on more than 100 records with at least ten
  vectors and no fitted model stores the model fitted on the scaled batch and changes
  nothing else, so it emits no alert. A cycle on more than 100 records with at least ten
  vectors and a fitted model \<open>m\<close> scores the scaled batch with \<open>m\<close> and leaves \<open>m\<close> in
  place. Over a whole run of packets and cycles, a fitted model is never replaced; and
  from an untrained state the model at the end of the run is the one fitted on the batch
  of the first cycle that found more than 100 records and at least ten vectors, or none
  if the run had no such cycle.
\<close>

theorem scorer_trains_once:
  "(length (packet_buffer st) \<le> 100 \<or> length (extract_features (packet_buffer st)) < 10 \<longrightarrow>
      continuous_analysis_cycle sk now st = st) \<and>
   (100 < length (packet_buffer st) \<and> 10 \<le> length (extract_features (packet_buffer st)) \<and>
    ml_model st = None \<longrightarrow>
      continuous_analysis_cycle sk now st =
        st\<lparr>ml_model := Some (fit sk (fit_transform sk (extract_features (packet_buffer st))))\<rparr>) \<and>
   (100 < length (packet_buffer st) \<and> 10 \<le> length (extract_features (packet_buffer st)) \<and>
    ml_model st = Some m \<longrightarrow>
      continuous_analysis_cycle sk now st =
        anomaly_alerts now (length (extract_features (packet_buffer st)))
          (enumerate_py
             (zip (predict sk m (fit_transform sk (extract_features (packet_buffer st))))
                  (decision_function sk m
                     (fit_transform sk (extract_features (packet_buffer st))))))
          st \<and>
      ml_model (continuous_analysis_cycle sk now st) = Some m) \<and>
   (ml_model st = None \<longrightarrow>
      threat_alerts (continuous_analysis_cycle sk now st) = threat_alerts st) \<and>
   (ml_model st = Some m \<longrightarrow> ml_model (run sk st evs) = Some m) \<and>
   (ml_model st = None \<longrightarrow>
      ml_model (run sk st evs) =
        map_option (\<lambda>X. fit sk (fit_transform sk X)) (first_batch sk st evs))"
proof -
  have fit_case: "continuous_analysis_cycle sk now st =
      st\<lparr>ml_model := Some (fit sk (fit_transform sk (extract_features (packet_buffer st))))\<rparr>"
    if "100 < length (packet_buffer st)" "10 \<le> length (extract_features (packet_buffer st))"
      "ml_model st = None"
    using that by (simp add: cycle_runs ml_analysis_fit)
  have score_case: "continuous_analysis_cycle sk now st =
        anomaly_alerts now (length (extract_features (packet_buffer st)))
          (enumerate_py
             (zip (predict sk m (fit_transform sk (extract_features (packet_buffer st))))
                  (decision_function sk m
                     (fit_transform sk (extract_features (packet_buffer st))))))
          st"
    if "100 < length (packet_buffer st)" "10 \<le> length (extract_features (packet_buffer st))"
      "ml_model st = Some m"
    using that by (simp add: cycle_runs ml_analysis_score)
  show ?thesis
    using cycle_skips [of st sk now] fit_case score_case
      cycle_keeps_model [of st m sk now] cycle_untrained_alerts [of st sk now]
      run_keeps_model [of st m sk evs] run_first_fit [of st sk evs]
    by blast
qed

text \<open>
  C8, as the specification states it, fails on a small window. The window of
  \<open>untrained_ids\<close> holds 50 records of ten sources, five each, so that it has ten
  qualifying groups, and the scorer is untrained. The cycle of the analysis thread does
  not run the analysis on a window of 50 records: the scorer is still untrained after
  it.
\<close>

theorem small_window_cycle_does_not_fit:
  "ml_model untrained_ids = None \<and>
   10 \<le> length (extract_features (packet_buffer untrained_ids)) \<and>
   length (packet_buffer untrained_ids) = 50 \<and>
   ml_model (continuous_analysis_cycle flag_first 60 untrained_ids) = None \<and>
   ml_model (run flag_first untrained_ids (Analysis 60 # Analysis 120 # [])) = None"
  by code_simp

text \<open>
  The kinds of cycle on sample states, and the sample run (a cycle, a packet, a cycle)
  from the untrained and from the trained state with 110 records in the window.
\<close>

theorem scorer_trains_once_witness:
  "length (packet_buffer untrained_ids) \<le> 100 \<and>
   ml_model (continuous_analysis_cycle flag_first 60 untrained_ids) = None \<and>
   threat_alerts (continuous_analysis_cycle flag_first 60 untrained_ids) = [] \<and>
   100 < length (packet_buffer untrained_large) \<and>
   10 \<le> length (extract_features (packet_buffer untrained_large)) \<and>
   ml_model untrained_large = None \<and>
   ml_model (continuous_analysis_cycle flag_first 60 untrained_large) =
     Some (extract_features eleven_each) \<and>
   threat_alerts (continuous_analysis_cycle flag_first 60 untrained_large) = [] \<and>
   100 < length (packet_buffer trained_large) \<and>
   10 \<le> length (extract_features (packet_buffer trained_large)) \<and>
   ml_model trained_large = Some [] \<and>
   ml_model (continuous_analysis_cycle flag_first 60 trained_large) = Some [] \<and>
   ml_model (run flag_first trained_large sample_run) = Some [] \<and>
   ml_model (run flag_first untrained_large sample_run) = Some (extract_features eleven_each)"
proof -
  have a: "length (packet_buffer untrained_ids) \<le> 100"
    by code_simp
  have a0: "ml_model untrained_ids = None" "threat_alerts untrained_ids = []"
    by (simp_all add: untrained_ids_def init_ids_def)
  have b: "100 < length (packet_buffer untrained_large)"
    "10 \<le> length (extract_features (packet_buffer untrained_large))"
    by code_simp+
  have c: "ml_model untrained_large = None"
    by (simp add: untrained_large_def init_ids_def)
  have d: "100 < length (packet_buffer trained_large)"
    "10 \<le> length (extract_features (packet_buffer trained_large))"
    by code_simp+
  have e: "ml_model trained_large = Some []"
    by (simp add: trained_large_def)
  have f: "first_batch flag_first untrained_large sample_run = Some (extract_features eleven_each)"
    by code_simp
  have g: "packet_buffer untrained_large = eleven_each" "threat_alerts untrained_large = []"
    by (simp_all add: untrained_large_def init_ids_def)
  have h: "fit flag_first (fit_transform flag_first X) = X" for X
    by (simp add: flag_first_def)
  note t0 = scorer_trains_once [where st = untrained_ids and sk = flag_first and now = 60
      and m = "[]" and evs = "[]"]
  note t1 = scorer_trains_once [where st = untrained_large and sk = flag_first and now = 60
      and m = "[]" and evs = sample_run]
  note t2 = scorer_trains_once [where st = trained_large and sk = flag_first and now = 60
      and m = "[]" and evs = sample_run]
  have a': "continuous_analysis_cycle flag_first 60 untrained_ids = untrained_ids"
    using t0 a by blast
  have b1: "continuous_analysis_cycle flag_first 60 untrained_large =
      untrained_large\<lparr>ml_model := Some (fit flag_first (fit_transform flag_first
        (extract_features (packet_buffer untrained_large))))\<rparr>"
    using t1 b c by blast
  have b2: "ml_model (continuous_analysis_cycle flag_first 60 untrained_large) =
      Some (extract_features eleven_each)"
    unfolding b1 by (simp add: h g)
  have b3: "threat_alerts (continuous_analysis_cycle flag_first 60 untrained_large) = []"
    using t1 c g(2) by simp
  have d1: "ml_model (continuous_analysis_cycle flag_first 60 trained_large) = Some []"
    using t2 d e by blast
  have d2: "ml_model (run flag_first trained_large sample_run) = Some []"
    using t2 e by blast
  have f1: "ml_model (run flag_first untrained_large sample_run) =
      map_option (\<lambda>X. fit flag_first (fit_transform flag_first X))
        (first_batch flag_first untrained_large sample_run)"
    using t1 c by blast
  have f2: "ml_model (run flag_first untrained_large sample_run) =
      Some (extract_features eleven_each)"
    unfolding f1 f by (simp add: h)
  show ?thesis
    using a b c d e b2 b3 d1 d2 f2 by (simp add: a' a0)
qed

end
